theory Spec2Isabelle
  imports
    Main
    "HOL-Library.Char_ord"
    "HOL-Library.List_Lexorder"
    "HOL-Library.Option_ord"
    "HOL-Library.Multiset"
    "HOL-Library.Sublist"
begin

section \<open>The chat-context session store (\<^verbatim>\<open>database-better.ts\<close>)\<close>

text \<open>
  The store is the class \<^verbatim>\<open>DatabaseBetter\<close>: one SQLite table \<^verbatim>\<open>chat_sessions\<close>, and,
  when the FTS5 extension is there, the virtual table \<^verbatim>\<open>chat_sessions_fts\<close> kept up to date
  by three triggers. Every method is modelled in state-passing style: it takes the handle
  \<^verbatim>\<open>this.db\<close> and returns the outcome (an error or a value) together with the handle
  afterwards. The clock (\<^verbatim>\<open>new Date()\<close>, \<^verbatim>\<open>Date.now()\<close>) and \<^verbatim>\<open>Math.random()\<close> are arguments.
  Strings are lists of 8-bit characters; SQLite compares \<^verbatim>\<open>TEXT\<close> values with the \<^verbatim>\<open>BINARY\<close>
  collation, which is the lexicographic order on lists of characters (List_Lexorder, Char_ord).
  Resource limits of the engine (maximal string and pattern lengths) are not modelled.
\<close>

subsection \<open>Errors\<close>

datatype error =
    NotInitialized          \<comment> \<open>\<^verbatim>\<open>throw new Error('Database not initialized')\<close>\<close>
  | SqliteConstraintCheck   \<comment> \<open>\<^verbatim>\<open>CHECK (agent_type IN (...))\<close> fails\<close>
  | SqliteConstraintPrimaryKey \<comment> \<open>a second row with the same \<^verbatim>\<open>id\<close>\<close>
  | SqliteSyntaxError       \<comment> \<open>\<^verbatim>\<open>prepare\<close> rejects the statement text\<close>
  | SqliteAmbiguousColumn   \<comment> \<open>an unqualified column that both joined tables have\<close>
  | SqliteNoSuchTable       \<comment> \<open>a statement on \<^verbatim>\<open>chat_sessions_fts\<close> when it does not exist\<close>
  | Fts5SyntaxError         \<comment> \<open>the \<^verbatim>\<open>MATCH\<close> expression does not parse\<close>
  | SqliteCorruptVtab       \<comment> \<open>an FTS5 hit whose row is missing from the content table\<close>
  | RangeError              \<comment> \<open>\<^verbatim>\<open>toISOString\<close> of an invalid date\<close>

subsection \<open>Dates: \<^verbatim>\<open>Date.prototype.toISOString\<close>\<close>

text \<open>
  A time value is a number of milliseconds since 1970-01-01T00:00:00Z. The functions below
  are the abstract operations of the ECMAScript specification (Day, TimeWithinDay,
  DayFromYear, YearFromTime, MonthFromTime, DateFromTime, ...), on days instead of
  milliseconds where the specification works on a time only through its day.
\<close>

definition msPerDay :: int where
  "msPerDay = 86400000"

definition Day :: "int \<Rightarrow> int" where
  "Day t = t div msPerDay"

definition TimeWithinDay :: "int \<Rightarrow> int" where
  "TimeWithinDay t = t mod msPerDay"

definition DayFromYear :: "int \<Rightarrow> int" where
  "DayFromYear y =
     365 * (y - 1970) + (y - 1969) div 4 - (y - 1901) div 100 + (y - 1601) div 400"

definition DaysInYear :: "int \<Rightarrow> int" where
  "DaysInYear y =
     (if y mod 4 \<noteq> 0 then 365 else if y mod 100 \<noteq> 0 then 366
      else if y mod 400 \<noteq> 0 then 365 else 366)"

text \<open>
  YearFromTime is "the largest integer y such that TimeFromYear(y) \<le> t". It is computed by
  counting up from a year that is not after the day.
\<close>

function year_search :: "int \<Rightarrow> int \<Rightarrow> int" where
  "year_search d y = (if DayFromYear (y + 1) \<le> d then year_search d (y + 1) else y)"
  by pat_completeness auto
termination
  by (relation "measure (\<lambda>(d, y). nat (d - DayFromYear y))")
     (auto simp: DayFromYear_def)

declare year_search.simps [simp del]

definition YearFromDay :: "int \<Rightarrow> int" where
  "YearFromDay d =
     year_search d (if 0 \<le> d then 1970 + d div 366 else 1970 + d div 365)"

definition DayWithinYear :: "int \<Rightarrow> int" where
  "DayWithinYear d = d - DayFromYear (YearFromDay d)"

definition InLeapYear :: "int \<Rightarrow> int" where
  "InLeapYear d = (if DaysInYear (YearFromDay d) = 366 then 1 else 0)"

text \<open>MonthFromTime, counted from 1 as \<^verbatim>\<open>toISOString\<close> prints it.\<close>

definition MonthFromDay :: "int \<Rightarrow> int" where
  "MonthFromDay d =
     (let w = DayWithinYear d; l = InLeapYear d in
      if w < 31 then 1
      else if w < 59 + l then 2
      else if w < 90 + l then 3
      else if w < 120 + l then 4
      else if w < 151 + l then 5
      else if w < 181 + l then 6
      else if w < 212 + l then 7
      else if w < 243 + l then 8
      else if w < 273 + l then 9
      else if w < 304 + l then 10
      else if w < 334 + l then 11
      else 12)"

definition DateFromDay :: "int \<Rightarrow> int" where
  "DateFromDay d =
     (let w = DayWithinYear d; l = InLeapYear d; m = MonthFromDay d in
      if m = 1 then w + 1
      else if m = 2 then w - 30
      else if m = 3 then w - 58 - l
      else if m = 4 then w - 89 - l
      else if m = 5 then w - 119 - l
      else if m = 6 then w - 150 - l
      else if m = 7 then w - 180 - l
      else if m = 8 then w - 211 - l
      else if m = 9 then w - 242 - l
      else if m = 10 then w - 272 - l
      else if m = 11 then w - 303 - l
      else w - 333 - l)"

definition HourFromTime :: "int \<Rightarrow> int" where
  "HourFromTime t = (t div 3600000) mod 24"

definition MinFromTime :: "int \<Rightarrow> int" where
  "MinFromTime t = (t div 60000) mod 60"

definition SecFromTime :: "int \<Rightarrow> int" where
  "SecFromTime t = (t div 1000) mod 60"

definition msFromTime :: "int \<Rightarrow> int" where
  "msFromTime t = t mod 1000"

definition digit :: "int \<Rightarrow> char" where
  "digit n = ''0123456789'' ! nat (n mod 10)"

definition pad2 :: "int \<Rightarrow> string" where
  "pad2 n = [digit (n div 10), digit n]"

definition pad3 :: "int \<Rightarrow> string" where
  "pad3 n = [digit (n div 100), digit (n div 10), digit n]"

definition pad4 :: "int \<Rightarrow> string" where
  "pad4 n = [digit (n div 1000), digit (n div 100), digit (n div 10), digit n]"

definition pad6 :: "int \<Rightarrow> string" where
  "pad6 n = [digit (n div 100000), digit (n div 10000), digit (n div 1000),
             digit (n div 100), digit (n div 10), digit n]"

text \<open>Years 0 to 9999 print with four digits, the others with a sign and six digits.\<close>

definition year_string :: "int \<Rightarrow> string" where
  "year_string y =
     (if 0 \<le> y \<and> y \<le> 9999 then pad4 y
      else if y < 0 then CHR ''-'' # pad6 (- y) else CHR ''+'' # pad6 y)"

text \<open>A time value beyond \<open>\<plusminus>8.64e15\<close> is an invalid date, and \<^verbatim>\<open>toISOString\<close> throws.\<close>

definition valid_time :: "int \<Rightarrow> bool" where
  "valid_time t = (\<bar>t\<bar> \<le> 8640000000000000)"

definition toISOString :: "int \<Rightarrow> error + string" where
  "toISOString t =
     (if \<not> valid_time t then Inl RangeError
      else Inr (year_string (YearFromDay (Day t)) @ ''-'' @ pad2 (MonthFromDay (Day t))
                @ ''-'' @ pad2 (DateFromDay (Day t)) @ ''T'' @ pad2 (HourFromTime t)
                @ '':'' @ pad2 (MinFromTime t) @ '':'' @ pad2 (SecFromTime t)
                @ ''.'' @ pad3 (msFromTime t) @ ''Z''))"

subsection \<open>Sessions, partial updates and the database\<close>

text \<open>
  \<^verbatim>\<open>ChatSession\<close>. The column \<^verbatim>\<open>id\<close> is the field \<open>session_id\<close>; \<^verbatim>\<open>project_context\<close> may be
  \<^verbatim>\<open>NULL\<close>; \<^verbatim>\<open>tags\<close> is the serialised JSON array, a string the store never parses.
\<close>

record session =
  session_id :: string
  title :: string
  agent_id :: string
  agent_type :: string
  project_context :: "string option"
  original_content :: string
  tags :: string
  created_at :: string
  updated_at :: string

text \<open>\<^verbatim>\<open>Partial<ChatSession>\<close>: every field may be absent.\<close>

record session_updates =
  session_id_upd :: "string option"
  title_upd :: "string option"
  agent_id_upd :: "string option"
  agent_type_upd :: "string option"
  project_context_upd :: "string option"
  original_content_upd :: "string option"
  tags_upd :: "string option"
  created_at_upd :: "string option"
  updated_at_upd :: "string option"

text \<open>
  The full-text index. The virtual table is declared with \<^verbatim>\<open>content='chat_sessions'\<close> and
  \<^verbatim>\<open>content_rowid='rowid'\<close>: an external-content FTS5 table. It stores no column values,
  only the inverted index, which files tokens under a rowid; whenever it needs the column
  values of a row (to answer a scan, a \<^verbatim>\<open>WHERE id = ?\<close>, or to find the tokens it has to remove
  on a delete or an update) it reads the row with that rowid from \<^verbatim>\<open>chat_sessions\<close> as it is
  at that moment. The index is modelled by the texts whose tokens it holds: an entry
  \<open>(r, title, content, tags)\<close> says that the tokens of these three texts are filed under
  rowid \<open>r\<close>. \<open>None\<close> is a database without the virtual table (FTS5 not available).
\<close>

type_synonym fts_doc = "string \<times> string \<times> string"

type_synonym fts_index = "(nat \<times> fts_doc) list"

record database =
  chat_sessions :: "(nat \<times> session) list"  \<comment> \<open>the rows with their rowids, in rowid order\<close>
  chat_sessions_fts :: "fts_index option"

text \<open>\<^verbatim>\<open>this.db\<close>, \<^verbatim>\<open>null\<close> before \<^verbatim>\<open>initialize\<close>.\<close>

type_synonym handle = "database option"

text \<open>A database file just created by \<^verbatim>\<open>initialize\<close>, with or without FTS5.\<close>

definition fresh_database :: "bool \<Rightarrow> database" where
  "fresh_database hasFTS5 =
     \<lparr>chat_sessions = [], chat_sessions_fts = (if hasFTS5 then Some [] else None)\<rparr>"

text \<open>JavaScript truthiness of an optional string and of an optional number.\<close>

definition truthy :: "string option \<Rightarrow> bool" where
  "truthy v = (case v of None \<Rightarrow> False | Some s \<Rightarrow> s \<noteq> [])"

definition truthy_number :: "int option \<Rightarrow> bool" where
  "truthy_number v = (case v of None \<Rightarrow> False | Some n \<Rightarrow> n \<noteq> 0)"

subsection \<open>The tables and the triggers\<close>

text \<open>A row inserted without a rowid gets the largest rowid in use plus one.\<close>

definition next_rowid :: "(nat \<times> 'a) list \<Rightarrow> nat" where
  "next_rowid t = Suc (fold max (map fst t) 0)"

definition content_row :: "database \<Rightarrow> nat \<Rightarrow> session option" where
  "content_row d r = map_of (chat_sessions d) r"

definition doc_of :: "session \<Rightarrow> fts_doc" where
  "doc_of s = (title s, original_content s, tags s)"

text \<open>\<^verbatim>\<open>INSERT INTO chat_sessions_fts(id, title, original_content, tags) VALUES (...)\<close>.\<close>

definition fts5_insert :: "fts_doc \<Rightarrow> fts_index \<Rightarrow> fts_index" where
  "fts5_insert doc ix = ix @ [(next_rowid ix, doc)]"

text \<open>
  Deleting row \<open>r\<close> of the virtual table removes from the index the tokens of the values
  that the content table holds for \<open>r\<close> now; updating it does the same and then files the
  new values under \<open>r\<close>.
\<close>

definition fts5_delete_row :: "database \<Rightarrow> nat \<Rightarrow> fts_index \<Rightarrow> fts_index" where
  "fts5_delete_row d r ix =
     (case content_row d r of
        None \<Rightarrow> ix
      | Some cur \<Rightarrow> filter (\<lambda>e. e \<noteq> (r, doc_of cur)) ix)"

definition fts5_update_row :: "database \<Rightarrow> fts_doc \<Rightarrow> nat \<Rightarrow> fts_index \<Rightarrow> fts_index" where
  "fts5_update_row d doc r ix = fts5_delete_row d r ix @ [(r, doc)]"

text \<open>
  The rows that a statement on the virtual table selects with \<^verbatim>\<open>WHERE id = ?\<close>: the column
  \<^verbatim>\<open>id\<close> is \<^verbatim>\<open>UNINDEXED\<close>, so the table is scanned, and the scan reads the content table.
\<close>

definition fts5_rows_with_id :: "database \<Rightarrow> string \<Rightarrow> nat list" where
  "fts5_rows_with_id d i = map fst (filter (\<lambda>(r, s). session_id s = i) (chat_sessions d))"

text \<open>
  The triggers \<^verbatim>\<open>chat_sessions_ai\<close>, \<^verbatim>\<open>chat_sessions_ad\<close> and \<^verbatim>\<open>chat_sessions_au\<close>. Each runs
  after the row of \<^verbatim>\<open>chat_sessions\<close> has been inserted, deleted or updated: the database it
  gets is the one after that change. They exist only when the virtual table does.
\<close>

definition chat_sessions_ai :: "session \<Rightarrow> database \<Rightarrow> database" where
  "chat_sessions_ai new d =
     (case chat_sessions_fts d of
        None \<Rightarrow> d
      | Some ix \<Rightarrow> d\<lparr>chat_sessions_fts := Some (fts5_insert (doc_of new) ix)\<rparr>)"

definition chat_sessions_ad :: "session \<Rightarrow> database \<Rightarrow> database" where
  "chat_sessions_ad old d =
     (case chat_sessions_fts d of
        None \<Rightarrow> d
      | Some ix \<Rightarrow>
          d\<lparr>chat_sessions_fts :=
              Some (fold (fts5_delete_row d) (fts5_rows_with_id d (session_id old)) ix)\<rparr>)"

definition chat_sessions_au :: "session \<Rightarrow> database \<Rightarrow> database" where
  "chat_sessions_au new d =
     (case chat_sessions_fts d of
        None \<Rightarrow> d
      | Some ix \<Rightarrow>
          d\<lparr>chat_sessions_fts :=
              Some (fold (fts5_update_row d (doc_of new))
                      (fts5_rows_with_id d (session_id new)) ix)\<rparr>)"

text \<open>\<^verbatim>\<open>INSERT INTO chat_sessions\<close>, with the table's constraints.\<close>

definition insert_chat_sessions :: "session \<Rightarrow> database \<Rightarrow> error + database" where
  "insert_chat_sessions s d =
     (if agent_type s \<notin> set [''claude'', ''cursor'', ''other''] then Inl SqliteConstraintCheck
      else if session_id s \<in> set (map (session_id \<circ> snd) (chat_sessions d))
        then Inl SqliteConstraintPrimaryKey
      else Inr (chat_sessions_ai s
             (d\<lparr>chat_sessions := chat_sessions d @ [(next_rowid (chat_sessions d), s)]\<rparr>)))"

text \<open>
  \<^verbatim>\<open>UPDATE chat_sessions SET ... WHERE ...\<close> and \<^verbatim>\<open>DELETE FROM chat_sessions WHERE ...\<close>: the
  rows that satisfy the condition are changed one after the other, the trigger running
  after each; the number of these rows is \<^verbatim>\<open>result.changes\<close>.
\<close>

definition update_row :: "(session \<Rightarrow> session) \<Rightarrow> nat \<Rightarrow> database \<Rightarrow> database" where
  "update_row f r d =
     (case content_row d r of
        None \<Rightarrow> d
      | Some s \<Rightarrow>
          chat_sessions_au (f s)
            (d\<lparr>chat_sessions :=
                 map (\<lambda>(r', s'). if r' = r then (r', f s') else (r', s')) (chat_sessions d)\<rparr>))"

definition update_chat_sessions ::
  "(session \<Rightarrow> session) \<Rightarrow> (session \<Rightarrow> bool) \<Rightarrow> database \<Rightarrow> nat \<times> database" where
  "update_chat_sessions f p d =
     (let hits = map fst (filter (\<lambda>(r, s). p s) (chat_sessions d))
      in (length hits, fold (update_row f) hits d))"

definition delete_row :: "nat \<Rightarrow> database \<Rightarrow> database" where
  "delete_row r d =
     (case content_row d r of
        None \<Rightarrow> d
      | Some old \<Rightarrow>
          chat_sessions_ad old
            (d\<lparr>chat_sessions := filter (\<lambda>(r', s'). r' \<noteq> r) (chat_sessions d)\<rparr>))"

definition delete_chat_sessions :: "(session \<Rightarrow> bool) \<Rightarrow> database \<Rightarrow> nat \<times> database" where
  "delete_chat_sessions p d =
     (let hits = map fst (filter (\<lambda>(r, s). p s) (chat_sessions d))
      in (length hits, fold delete_row hits d))"

subsection \<open>\<^verbatim>\<open>createSession\<close>, \<^verbatim>\<open>getSession\<close>, \<^verbatim>\<open>updateSession\<close>, \<^verbatim>\<open>deleteSession\<close>\<close>

text \<open>Decimal digits of \<^verbatim>\<open>Date.now()\<close>, as string concatenation prints a number.\<close>

function decimal :: "int \<Rightarrow> string" where
  "decimal n = (if n < 10 then [digit n] else decimal (n div 10) @ [digit n])"
  by pat_completeness auto
termination
  by (relation "measure nat") auto

declare decimal.simps [simp del]

definition number_toString :: "int \<Rightarrow> string" where
  "number_toString n = (if n < 0 then CHR ''-'' # decimal (- n) else decimal n)"

text \<open>
  \<^verbatim>\<open>'session_' + Date.now() + '_' + Math.random().toString(36).substr(2, 9)\<close>; the random
  part is the argument \<open>rnd\<close>.
\<close>

definition generateId :: "int \<Rightarrow> string \<Rightarrow> string" where
  "generateId now rnd = ''session_'' @ number_toString now @ ''_'' @ rnd"

text \<open>
  \<open>createSession h session idnow rnd now\<close>: \<open>idnow\<close> is the clock read by \<^verbatim>\<open>generateId\<close>,
  \<open>now\<close> the clock read by \<^verbatim>\<open>new Date()\<close>. The object spread \<^verbatim>\<open>{...session, id, created_at,
  updated_at}\<close> overwrites the three fields whatever the argument has there.
\<close>

definition createSession ::
  "handle \<Rightarrow> session \<Rightarrow> int \<Rightarrow> string \<Rightarrow> int \<Rightarrow> (error + string) \<times> handle" where
  "createSession h session idnow rnd now =
     (case h of
        None \<Rightarrow> (Inl NotInitialized, h)
      | Some d \<Rightarrow>
          (case toISOString now of
             Inl e \<Rightarrow> (Inl e, h)
           | Inr ts \<Rightarrow>
               (let i = generateId idnow rnd;
                    fullSession = session\<lparr>session_id := i, created_at := ts, updated_at := ts\<rparr>
                in case insert_chat_sessions fullSession d of
                     Inl e \<Rightarrow> (Inl e, h)
                   | Inr d' \<Rightarrow> (Inr i, Some d'))))"


text \<open>The columns of \<^verbatim>\<open>chat_sessions\<close>, and an assignment \<^verbatim>\<open>column = ?\<close> of an \<^verbatim>\<open>UPDATE\<close>.\<close>

datatype column =
  Id | Title | Agent_id | Agent_type | Project_context | Original_content | Tags
  | Created_at | Updated_at

fun set_column :: "column \<times> string \<Rightarrow> session \<Rightarrow> session" where
  "set_column (Id, v) s = s\<lparr>session_id := v\<rparr>"
| "set_column (Title, v) s = s\<lparr>title := v\<rparr>"
| "set_column (Agent_id, v) s = s\<lparr>agent_id := v\<rparr>"
| "set_column (Agent_type, v) s = s\<lparr>agent_type := v\<rparr>"
| "set_column (Project_context, v) s = s\<lparr>project_context := Some v\<rparr>"
| "set_column (Original_content, v) s = s\<lparr>original_content := v\<rparr>"
| "set_column (Tags, v) s = s\<lparr>tags := v\<rparr>"
| "set_column (Created_at, v) s = s\<lparr>created_at := v\<rparr>"
| "set_column (Updated_at, v) s = s\<lparr>updated_at := v\<rparr>"

text \<open>\<^verbatim>\<open>if (updates.x) { fields.push('x = ?'); values.push(updates.x); }\<close>\<close>

definition push_if :: "column \<Rightarrow> string option \<Rightarrow> (column \<times> string) list" where
  "push_if c v = (case v of None \<Rightarrow> [] | Some x \<Rightarrow> if x \<noteq> [] then [(c, x)] else [])"

definition update_fields :: "session_updates \<Rightarrow> (column \<times> string) list" where
  "update_fields updates =
     push_if Title (title_upd updates) @
     push_if Original_content (original_content_upd updates) @
     push_if Tags (tags_upd updates)"

definition updateSession ::
  "handle \<Rightarrow> string \<Rightarrow> session_updates \<Rightarrow> int \<Rightarrow> (error + bool) \<times> handle" where
  "updateSession h i updates now =
     (case h of
        None \<Rightarrow> (Inl NotInitialized, h)
      | Some d \<Rightarrow>
          (let fields = update_fields updates in
           if length fields = 0 then (Inr False, h)
           else case toISOString now of
                  Inl e \<Rightarrow> (Inl e, h)
                | Inr ts \<Rightarrow>
                    (case update_chat_sessions (fold set_column (fields @ [(Updated_at, ts)]))
                            (\<lambda>s. session_id s = i) d of
                       (changes, d') \<Rightarrow> (Inr (0 < changes), Some d'))))"

definition deleteSession :: "handle \<Rightarrow> string \<Rightarrow> (error + bool) \<times> handle" where
  "deleteSession h i =
     (case h of
        None \<Rightarrow> (Inl NotInitialized, h)
      | Some d \<Rightarrow>
          (case delete_chat_sessions (\<lambda>s. session_id s = i) d of
             (changes, d') \<Rightarrow> (Inr (0 < changes), Some d')))"

subsection \<open>Notions used in the statements\<close>




text \<open>Concrete data: the fields of a new session, a stored session, a store holding it.\<close>

definition example_session :: session where
  \<open>example_session =
     \<lparr>session_id = '''', title = ''Index design'', agent_id = ''agent-1'',
      agent_type = ''claude'', project_context = Some ''search'',
      original_content = ''We decided to use PostgreSQL for the database.'',
      tags = ''["db"]'', created_at = '''', updated_at = ''''\<rparr>\<close>

definition stored_session :: session where
  "stored_session =
     example_session\<lparr>session_id := ''session_1730625000123_k3j9x0q2a'',
       created_at := ''2024-11-03T09:10:00.123Z'', updated_at := ''2024-11-03T09:10:00.123Z''\<rparr>"

definition example_database :: "bool \<Rightarrow> database" where
  "example_database hasFTS5 =
     \<lparr>chat_sessions = [(1, stored_session)],
      chat_sessions_fts = (if hasFTS5 then Some [(1, doc_of stored_session)] else None)\<rparr>"

definition no_updates :: session_updates where
  "no_updates =
     \<lparr>session_id_upd = None, title_upd = None, agent_id_upd = None, agent_type_upd = None,
      project_context_upd = None, original_content_upd = None, tags_upd = None,
      created_at_upd = None, updated_at_upd = None\<rparr>"

section \<open>The search engine (\<^verbatim>\<open>searchSessions\<close>)\<close>

subsection \<open>Filters and results\<close>

text \<open>
  \<^verbatim>\<open>SearchFilters\<close>. A number is an integer here; \<^verbatim>\<open>NaN\<close>, which the router's \<^verbatim>\<open>parseInt\<close> can
  produce and which is falsy like \<^verbatim>\<open>undefined\<close>, is \<open>None\<close>.
\<close>

record SearchFilters =
  query :: "string option"
  agentType :: "string option"
  projectContext :: "string option"
  tags_filter :: "string list option"
  dateFrom :: "string option"
  dateTo :: "string option"
  limit :: "int option"
  offset :: "int option"

text \<open>\<^verbatim>\<open>SearchResult\<close>: the columns of the row, \<^verbatim>\<open>rank\<close> and \<^verbatim>\<open>matched_content\<close> (or \<^verbatim>\<open>NULL\<close>).\<close>

record SearchResult =
  row :: session
  rank :: "int option"
  matched_content :: "string option"

text \<open>The value of a field that is truthy.\<close>

definition given :: "string option \<Rightarrow> string option" where
  "given v = (case v of None \<Rightarrow> None | Some x \<Rightarrow> if x \<noteq> [] then Some x else None)"

definition given_number :: "int option \<Rightarrow> int option" where
  "given_number v = (case v of None \<Rightarrow> None | Some n \<Rightarrow> if n \<noteq> 0 then Some n else None)"

subsection \<open>The FTS5 engine\<close>

text \<open>
  The full-text engine is a library; the store only hands it a \<^verbatim>\<open>MATCH\<close> expression. It is
  a parameter: \<open>parse\<close> turns the expression into a test on everything the index has filed
  under one rowid, or fails on a syntax error; \<open>bm25\<close> is the rank of a hit (the hidden
  column \<^verbatim>\<open>rank\<close>), which depends on the whole index; \<open>highlight\<close> marks the matches in a
  column value.
\<close>

record fts5 =
  parse :: "string \<Rightarrow> (fts_doc list \<Rightarrow> bool) option"
  bm25 :: "string \<Rightarrow> fts_index \<Rightarrow> nat \<Rightarrow> int"
  highlight :: "string \<Rightarrow> string \<Rightarrow> string"

subsection \<open>The \<^verbatim>\<open>LIKE\<close> operator\<close>

definition ascii_lower :: "char \<Rightarrow> char" where
  "ascii_lower c =
     (case map_of (zip ''ABCDEFGHIJKLMNOPQRSTUVWXYZ'' ''abcdefghijklmnopqrstuvwxyz'') c of
        None \<Rightarrow> c
      | Some l \<Rightarrow> l)"

text \<open>
  \<open>like pattern text\<close> is SQLite's \<^verbatim>\<open>text LIKE pattern\<close> without an \<^verbatim>\<open>ESCAPE\<close> clause: \<^verbatim>\<open>%\<close>
  stands for any sequence of characters, \<^verbatim>\<open>_\<close> for any one character, and any other
  character for itself, upper and lower case ASCII letters being the same.
\<close>

fun like :: "string \<Rightarrow> string \<Rightarrow> bool" where
  "like [] s = (s = [])"
| "like (p # ps) s =
     (if p = CHR ''%''
      then like ps s \<or> (case s of [] \<Rightarrow> False | c # cs \<Rightarrow> like (p # ps) cs)
      else (case s of
              [] \<Rightarrow> False
            | c # cs \<Rightarrow> (p = CHR ''_'' \<or> ascii_lower p = ascii_lower c) \<and> like ps cs))"

subsection \<open>Statements\<close>

text \<open>
  The \<^verbatim>\<open>SELECT\<close> statements that \<^verbatim>\<open>searchSessions\<close> and \<^verbatim>\<open>findSimilarSessions\<close> put together
  from text fragments. Each condition carries the value bound to its \<^verbatim>\<open>?\<close>. The conditions
  of \<open>where_clause\<close> are joined by \<^verbatim>\<open>AND\<close>; the empty list is \<^verbatim>\<open>WHERE 1=1\<close>.
\<close>

datatype condition =
    Like column string       \<comment> \<open>\<^verbatim>\<open>column LIKE ?\<close>\<close>
  | Equals column string     \<comment> \<open>\<^verbatim>\<open>column = ?\<close>\<close>
  | AtLeast column string    \<comment> \<open>\<^verbatim>\<open>column >= ?\<close>\<close>
  | AtMost column string     \<comment> \<open>\<^verbatim>\<open>column <= ?\<close>\<close>
  | Or "condition list"      \<comment> \<open>\<^verbatim>\<open>(c1 OR c2 OR ...)\<close>\<close>

datatype source =
    From_chat_sessions
    \<comment> \<open>\<^verbatim>\<open>FROM chat_sessions\<close>\<close>
  | Join_fts string
    \<comment> \<open>\<^verbatim>\<open>FROM chat_sessions cs JOIN chat_sessions_fts fts ON cs.id = fts.id
        WHERE chat_sessions_fts MATCH ?\<close>\<close>

datatype ordering = By_rank | By_created_at_desc

record select_statement =
  from_clause :: source
  where_clause :: "condition list"
  order_by :: ordering
  limit_clause :: "int option"
  offset_clause :: "int option"

fun column_value :: "column \<Rightarrow> session \<Rightarrow> string option" where
  "column_value Id s = Some (session_id s)"
| "column_value Title s = Some (title s)"
| "column_value Agent_id s = Some (agent_id s)"
| "column_value Agent_type s = Some (agent_type s)"
| "column_value Project_context s = project_context s"
| "column_value Original_content s = Some (original_content s)"
| "column_value Tags s = Some (tags s)"
| "column_value Created_at s = Some (created_at s)"
| "column_value Updated_at s = Some (updated_at s)"

text \<open>
  Whether a row passes a condition. A comparison with \<^verbatim>\<open>NULL\<close> is \<^verbatim>\<open>NULL\<close>, and a row is
  selected only when the condition is true; no condition is ever negated, so \<^verbatim>\<open>NULL\<close> and
  false need not be told apart.
\<close>

fun holds :: "condition \<Rightarrow> session \<Rightarrow> bool" where
  "holds (Like c p) s = (case column_value c s of None \<Rightarrow> False | Some v \<Rightarrow> like p v)"
| "holds (Equals c x) s = (case column_value c s of None \<Rightarrow> False | Some v \<Rightarrow> v = x)"
| "holds (AtLeast c x) s = (case column_value c s of None \<Rightarrow> False | Some v \<Rightarrow> x \<le> v)"
| "holds (AtMost c x) s = (case column_value c s of None \<Rightarrow> False | Some v \<Rightarrow> v \<le> x)"
| "holds (Or cs) s = list_ex (\<lambda>c. holds c s) cs"

fun columns_of :: "condition \<Rightarrow> column list" where
  "columns_of (Like c p) = [c]"
| "columns_of (Equals c x) = [c]"
| "columns_of (AtLeast c x) = [c]"
| "columns_of (AtMost c x) = [c]"
| "columns_of (Or cs) = concat (map columns_of cs)"

text \<open>
  What \<^verbatim>\<open>prepare\<close> rejects. The grammar has \<^verbatim>\<open>OFFSET\<close> only after \<^verbatim>\<open>LIMIT\<close>. In the join, a
  column name without a qualifier must belong to one table only, and \<^verbatim>\<open>id\<close>, \<^verbatim>\<open>title\<close>,
  \<^verbatim>\<open>original_content\<close> and \<^verbatim>\<open>tags\<close> are columns of both tables.
\<close>

definition prepare_error :: "select_statement \<Rightarrow> error option" where
  "prepare_error st =
     (if offset_clause st \<noteq> None \<and> limit_clause st = None then Some SqliteSyntaxError
      else case from_clause st of
             From_chat_sessions \<Rightarrow> None
           | Join_fts q \<Rightarrow>
               if list_ex (\<lambda>c. c \<in> set [Id, Title, Original_content, Tags])
                    (concat (map columns_of (where_clause st)))
               then Some SqliteAmbiguousColumn else None)"

text \<open>
  The rows of the \<^verbatim>\<open>FROM\<close> clause. For the join: the rowids under which the index has
  something that matches; the columns of the virtual table, \<^verbatim>\<open>id\<close> among them, are read from
  the content table, so the join condition \<^verbatim>\<open>cs.id = fts.id\<close> pairs a hit with the row of
  \<^verbatim>\<open>chat_sessions\<close> that has the rowid of the hit; a hit with no such row is the error "database
  disk image is malformed". The model reports this error when some hit has no row, SQLite
  when it comes to such a hit. \<^verbatim>\<open>highlight(chat_sessions_fts, 1, ...)\<close> is on column 1,
  \<^verbatim>\<open>title\<close>.
\<close>

definition docs_under :: "fts_index \<Rightarrow> nat \<Rightarrow> fts_doc list" where
  "docs_under ix r = map snd (filter (\<lambda>e. fst e = r) ix)"

definition fts5_hits :: "(fts_doc list \<Rightarrow> bool) \<Rightarrow> fts_index \<Rightarrow> nat list" where
  "fts5_hits P ix = filter (\<lambda>r. P (docs_under ix r)) (remdups (map fst ix))"

definition select_rows :: "fts5 \<Rightarrow> database \<Rightarrow> source \<Rightarrow> error + SearchResult list" where
  "select_rows eng d src =
     (case src of
        From_chat_sessions \<Rightarrow>
          Inr (map (\<lambda>s. \<lparr>row = s, rank = None, matched_content = None\<rparr>)
                 (map snd (chat_sessions d)))
      | Join_fts q \<Rightarrow>
          (case chat_sessions_fts d of
             None \<Rightarrow> Inl SqliteNoSuchTable
           | Some ix \<Rightarrow>
               (case parse eng q of
                  None \<Rightarrow> Inl Fts5SyntaxError
                | Some P \<Rightarrow>
                    if list_ex (\<lambda>r. content_row d r = None) (fts5_hits P ix)
                    then Inl SqliteCorruptVtab
                    else Inr (concat (map (\<lambda>r.
                           case content_row d r of
                             None \<Rightarrow> []
                           | Some s \<Rightarrow>
                               [\<lparr>row = s, rank = Some (bm25 eng q ix r),
                                 matched_content = Some (highlight eng q (title s))\<rparr>])
                         (fts5_hits P ix))))))"

text \<open>
  \<^verbatim>\<open>ORDER BY\<close>. SQL leaves the order of rows with equal keys open; the model takes the
  stable sort (for \<^verbatim>\<open>DESC\<close>, reversed). No statement below depends on that choice.
\<close>

definition order_rows :: "ordering \<Rightarrow> SearchResult list \<Rightarrow> SearchResult list" where
  "order_rows ord rs =
     (case ord of
        By_rank \<Rightarrow> sort_key rank rs
      | By_created_at_desc \<Rightarrow> rev (sort_key (created_at \<circ> row) rs))"

text \<open>\<^verbatim>\<open>LIMIT n OFFSET k\<close>: a negative \<^verbatim>\<open>n\<close> is no limit, a negative \<^verbatim>\<open>k\<close> is 0.\<close>

definition limit_offset :: "int option \<Rightarrow> int option \<Rightarrow> 'a list \<Rightarrow> 'a list" where
  "limit_offset lim off xs =
     (case lim of
        None \<Rightarrow> xs
      | Some n \<Rightarrow>
          (let ys = drop (nat (case off of None \<Rightarrow> 0 | Some k \<Rightarrow> k)) xs
           in if n < 0 then ys else take (nat n) ys))"

text \<open>\<^verbatim>\<open>this.db.prepare(sql)\<close> and \<^verbatim>\<open>stmt.all(...params)\<close>.\<close>

definition run_select :: "fts5 \<Rightarrow> database \<Rightarrow> select_statement \<Rightarrow> error + SearchResult list" where
  "run_select eng d st =
     (case prepare_error st of
        Some e \<Rightarrow> Inl e
      | None \<Rightarrow>
          (case select_rows eng d (from_clause st) of
             Inl e \<Rightarrow> Inl e
           | Inr rs \<Rightarrow>
               Inr (limit_offset (limit_clause st) (offset_clause st)
                      (order_rows (order_by st)
                         (filter (\<lambda>r. list_all (\<lambda>c. holds c (row r)) (where_clause st)) rs)))))"

subsection \<open>\<^verbatim>\<open>searchSessions\<close>\<close>

definition checkFTSTableExists :: "handle \<Rightarrow> bool" where
  "checkFTSTableExists h =
     (case h of None \<Rightarrow> False | Some d \<Rightarrow> chat_sessions_fts d \<noteq> None)"

text \<open>The three branches on \<^verbatim>\<open>filters.query\<close> and \<^verbatim>\<open>hasFTSTable\<close>.\<close>

definition search_base :: "string option \<Rightarrow> bool \<Rightarrow> source \<times> condition list" where
  "search_base q hasFTSTable =
     (case given q of
        Some x \<Rightarrow>
          if hasFTSTable then (Join_fts x, [])
          else (let searchTerm = ''%'' @ x @ ''%''
                in (From_chat_sessions,
                    [Or [Like Title searchTerm, Like Original_content searchTerm,
                         Like Tags searchTerm]]))
      | None \<Rightarrow> (From_chat_sessions, []))"

text \<open>The additional filters, each one appended as \<^verbatim>\<open>AND ...\<close> when the filter is truthy.\<close>

definition search_conditions :: "SearchFilters \<Rightarrow> condition list" where
  \<open>search_conditions filters =
     (case given (agentType filters) of None \<Rightarrow> [] | Some x \<Rightarrow> [Equals Agent_type x]) @
     (case given (projectContext filters) of None \<Rightarrow> [] | Some x \<Rightarrow> [Equals Project_context x]) @
     (case given (dateFrom filters) of None \<Rightarrow> [] | Some x \<Rightarrow> [AtLeast Created_at x]) @
     (case given (dateTo filters) of None \<Rightarrow> [] | Some x \<Rightarrow> [AtMost Created_at x]) @
     (case tags_filter filters of
        None \<Rightarrow> []
      | Some ts \<Rightarrow>
          if length ts > 0 then [Or (map (\<lambda>tag. Like Tags (''%"'' @ tag @ ''"%'')) ts)] else [])\<close>

definition search_statement :: "SearchFilters \<Rightarrow> bool \<Rightarrow> select_statement" where
  "search_statement filters hasFTSTable =
     (case search_base (query filters) hasFTSTable of
        (src, base) \<Rightarrow>
          \<lparr>from_clause = src,
           where_clause = base @ search_conditions filters,
           order_by = (if given (query filters) \<noteq> None \<and> hasFTSTable then By_rank
                       else By_created_at_desc),
           limit_clause = given_number (limit filters),
           offset_clause = given_number (offset filters)\<rparr>)"

definition searchSessions ::
  "fts5 \<Rightarrow> handle \<Rightarrow> SearchFilters \<Rightarrow> (error + SearchResult list) \<times> handle" where
  "searchSessions eng h filters =
     (case h of
        None \<Rightarrow> (Inl NotInitialized, h)
      | Some d \<Rightarrow> (run_select eng d (search_statement filters (checkFTSTableExists h)), h))"

subsection \<open>Concrete data for the search engine\<close>

text \<open>
  A small instance of the engine parameter: an expression matches a rowid when it is, up
  to the case of ASCII letters, one of the texts filed under the rowid; every rank is 0.
\<close>

definition exact_engine :: fts5 where
  "exact_engine =
     \<lparr>parse = (\<lambda>q. if q = [] then None
                   else Some (list_ex (\<lambda>(t, c, g).
                          map ascii_lower q \<in> set (map (map ascii_lower) [t, c, g])))),
      bm25 = (\<lambda>q ix r. 0),
      highlight = (\<lambda>q v. ''<mark>'' @ v @ ''</mark>'')\<rparr>"

definition no_filters :: SearchFilters where
  "no_filters =
     \<lparr>query = None, agentType = None, projectContext = None, tags_filter = None,
      dateFrom = None, dateTo = None, limit = None, offset = None\<rparr>"

text \<open>The bound on \<^verbatim>\<open>limit\<close> in \<^verbatim>\<open>validateSearchParams\<close>: "limit must be a number between 1 and 100".\<close>

definition hard_maximum :: nat where
  "hard_maximum = 100"

text \<open>A store with \<open>n\<close> sessions.\<close>

definition many_sessions :: "nat \<Rightarrow> database" where
  "many_sessions n =
     \<lparr>chat_sessions =
        map (\<lambda>k. (Suc k, stored_session\<lparr>session_id := ''session_'' @ decimal (int k)\<rparr>)) [0..<n],
      chat_sessions_fts = None\<rparr>"



subsection \<open>A run of the store with the index\<close>

text \<open>
  On a new store with FTS5: create a session titled "Index design"; then either retitle it
  "Ranking", or delete it and create a second session titled "Ranking".
\<close>

definition created :: handle where
  "created =
     snd (createSession (Some (fresh_database True)) example_session
            1730625000123 ''k3j9x0q2a'' 1730625000123)"

definition retitled :: handle where
  "retitled =
     snd (updateSession created ''session_1730625000123_k3j9x0q2a''
            (no_updates\<lparr>title_upd := Some ''Ranking''\<rparr>) 1730625000456)"

definition deleted :: handle where
  "deleted = snd (deleteSession created ''session_1730625000123_k3j9x0q2a'')"

definition created_again :: handle where
  "created_again =
     snd (createSession deleted (example_session\<lparr>title := ''Ranking''\<rparr>)
            1730625000789 ''x7c2m4p0z'' 1730625000789)"

section \<open>Similar sessions (\<^verbatim>\<open>findSimilarSessions\<close>)\<close>

subsection \<open>Characters\<close>

text \<open>
  A character is a code unit below 256. \<^verbatim>\<open>\w\<close> is an ASCII letter, a digit or the underscore;
  \<^verbatim>\<open>\s\<close> has seven members below 256; \<^verbatim>\<open>toLowerCase\<close> moves A-Z and the capital letters of
  Latin-1 (C0-DE except D7) by 32.
\<close>

definition is_word_char :: "char \<Rightarrow> bool" where
  "is_word_char c \<longleftrightarrow>
     c \<in> set ''abcdefghijklmnopqrstuvwxyzABCDEFGHIJKLMNOPQRSTUVWXYZ0123456789_''"

definition is_whitespace :: "char \<Rightarrow> bool" where
  "is_whitespace c \<longleftrightarrow>
     c \<in> set [CHR 0x09, CHR 0x0A, CHR 0x0B, CHR 0x0C, CHR 0x0D, CHR 0x20, CHR 0xA0]"

definition lower_char :: "char \<Rightarrow> char" where
  "lower_char c =
     (let n = (of_char c :: nat)
      in if (65 \<le> n \<and> n \<le> 90) \<or> (192 \<le> n \<and> n \<le> 222 \<and> n \<noteq> 215)
         then char_of (n + 32) else c)"

definition toLowerCase :: "string \<Rightarrow> string" where
  "toLowerCase s = map lower_char s"

subsection \<open>\<^verbatim>\<open>extractKeyTermsFromContent\<close>\<close>

text \<open>\<^verbatim>\<open>.replace(/[^\w\s]/g, ' ')\<close>\<close>

definition replace_non_word :: "string \<Rightarrow> string" where
  "replace_non_word s = map (\<lambda>c. if is_word_char c \<or> is_whitespace c then c else CHR '' '') s"

text \<open>
  \<^verbatim>\<open>.split(/\s+/)\<close>: the pieces between the maximal runs of whitespace, the empty pieces at
  the two ends included. \<open>split_whitespace cur s\<close> has read \<open>cur\<close> of the current piece.
\<close>

function split_whitespace :: "string \<Rightarrow> string \<Rightarrow> string list" where
  "split_whitespace cur [] = [cur]"
| "split_whitespace cur (c # cs) =
     (if is_whitespace c then cur # split_whitespace [] (dropWhile is_whitespace cs)
      else split_whitespace (cur @ [c]) cs)"
  by pat_completeness auto
termination
  by (relation "measure (\<lambda>(cur, s). length s)")
     (auto simp: length_dropWhile_le le_imp_less_Suc)

definition stop_words :: "string list" where
  "stop_words =
     [''the'', ''and'', ''that'', ''this'', ''with'', ''from'', ''they'', ''have'', ''been'',
      ''said'', ''each'', ''which'', ''their'', ''will'', ''about'', ''would'', ''there'',
      ''could'', ''other'']"

definition key_words :: "string \<Rightarrow> string list" where
  "key_words content =
     filter (\<lambda>word. word \<notin> set stop_words)
       (filter (\<lambda>word. length word > 3)
          (split_whitespace [] (replace_non_word (toLowerCase content))))"

text \<open>
  \<^verbatim>\<open>wordCount\<close> is an object literal used as a map, so a key it does not own is looked up in
  \<^verbatim>\<open>Object.prototype\<close>. Two of the inherited names can be words (lower case, longer than 3):
  \<^verbatim>\<open>constructor\<close>, where \<^verbatim>\<open>(wordCount[word] || 0) + 1\<close> is the function \<^verbatim>\<open>Object\<close> plus 1, a string,
  which the assignment stores; and \<^verbatim>\<open>__proto__\<close>, where the assignment of a string is ignored
  by the setter. The value of an entry is therefore a number or a string; adding 1 to a
  string appends \<^verbatim>\<open>1\<close>.
\<close>

datatype js_value = Number nat | String string

definition next_count :: "(string \<times> js_value) list \<Rightarrow> string \<Rightarrow> js_value" where
  "next_count wordCount word =
     (case map_of wordCount word of
        Some (Number n) \<Rightarrow> Number (n + 1)
      | Some (String s) \<Rightarrow> String (s @ ''1'')
      | None \<Rightarrow>
          if word = ''constructor'' then String ''function Object() { [native code] }1''
          else if word = ''__proto__'' then String ''[object Object]1''
          else Number 1)"

definition count_word :: "string \<Rightarrow> (string \<times> js_value) list \<Rightarrow> (string \<times> js_value) list" where
  "count_word word wordCount =
     (if word = ''__proto__'' then wordCount
      else if word \<in> set (map fst wordCount)
        then map (\<lambda>(k, v). if k = word then (k, next_count wordCount word) else (k, v)) wordCount
      else wordCount @ [(word, next_count wordCount word)])"

text \<open>
  \<^verbatim>\<open>Object.entries\<close>: first the keys that are array indices (canonical decimal numbers up to
  \<open>2\<^sup>3\<^sup>2 - 2\<close>) in ascending numeric order, then the other keys in the order of their
  creation.
\<close>

definition digit_value :: "char \<Rightarrow> int" where
  "digit_value c = int (of_char c) - 48"

definition is_array_index :: "string \<Rightarrow> bool" where
  "is_array_index k \<longleftrightarrow>
     k \<noteq> [] \<and> list_all (\<lambda>c. c \<in> set ''0123456789'') k \<and> (k = ''0'' \<or> hd k \<noteq> CHR ''0'') \<and>
     fold (\<lambda>c n. 10 * n + digit_value c) k 0 \<le> 4294967294"

definition entries :: "(string \<times> js_value) list \<Rightarrow> (string \<times> js_value) list" where
  "entries wordCount =
     sort_key (\<lambda>(k, v). fold (\<lambda>c n. 10 * n + digit_value c) k 0)
       (filter (\<lambda>(k, v). is_array_index k) wordCount) @
     filter (\<lambda>(k, v). \<not> is_array_index k) wordCount"

text \<open>
  The comparison \<^verbatim>\<open>([,a], [,b]) => b - a\<close>; with a string that is not a number the difference
  is \<^verbatim>\<open>NaN\<close> (\<open>None\<close>), which \<^verbatim>\<open>sort\<close> takes as 0. \<^verbatim>\<open>sort\<close> is stable: it is modelled by insertion
  from the right, where an element goes before the first one that does not have to precede
  it. (With \<^verbatim>\<open>constructor\<close> among words of different counts the comparison is not an
  ordering, and the result then depends on the sorting algorithm of the engine.)
\<close>

fun difference :: "js_value \<Rightarrow> js_value \<Rightarrow> int option" where
  "difference (Number a) (Number b) = Some (int b - int a)"
| "difference _ _ = None"

definition compare_counts :: "string \<times> js_value \<Rightarrow> string \<times> js_value \<Rightarrow> int" where
  "compare_counts x y = (case difference (snd x) (snd y) of None \<Rightarrow> 0 | Some v \<Rightarrow> v)"

fun insert_sorted ::
  "('a \<Rightarrow> 'a \<Rightarrow> int) \<Rightarrow> 'a \<Rightarrow> 'a list \<Rightarrow> 'a list" where
  "insert_sorted cmp x [] = [x]"
| "insert_sorted cmp x (y # ys) =
     (if cmp x y \<le> 0 then x # y # ys else y # insert_sorted cmp x ys)"

definition stable_sort :: "('a \<Rightarrow> 'a \<Rightarrow> int) \<Rightarrow> 'a list \<Rightarrow> 'a list" where
  "stable_sort cmp xs = foldr (insert_sorted cmp) xs []"

definition extractKeyTermsFromContent :: "string \<Rightarrow> string list" where
  "extractKeyTermsFromContent content =
     (let words = key_words content;
          wordCount = fold count_word words []
      in map fst (take 8 (stable_sort compare_counts (entries wordCount))))"

subsection \<open>\<^verbatim>\<open>findSimilarSessions\<close>\<close>

text \<open>\<^verbatim>\<open>keyTerms.join(' OR ')\<close>\<close>

fun join_OR :: "string list \<Rightarrow> string" where
  "join_OR [] = []"
| "join_OR [t] = t"
| "join_OR (t # ts) = t @ '' OR '' @ join_OR ts"

definition likeConditions :: "string list \<Rightarrow> condition" where
  "likeConditions keyTerms =
     Or (map (\<lambda>term.
            Or [Like Title (''%'' @ term @ ''%''), Like Original_content (''%'' @ term @ ''%''),
                Like Tags (''%'' @ term @ ''%'')]) keyTerms)"

definition similar_statement :: "string list \<Rightarrow> int \<Rightarrow> bool \<Rightarrow> select_statement" where
  "similar_statement keyTerms lim hasFTSTable =
     (if hasFTSTable
      then \<lparr>from_clause = Join_fts (join_OR keyTerms), where_clause = [], order_by = By_rank,
            limit_clause = Some lim, offset_clause = None\<rparr>
      else \<lparr>from_clause = From_chat_sessions, where_clause = [likeConditions keyTerms],
            order_by = By_created_at_desc, limit_clause = Some lim, offset_clause = None\<rparr>)"

definition findSimilarSessions ::
  "fts5 \<Rightarrow> handle \<Rightarrow> string \<Rightarrow> int \<Rightarrow> (error + SearchResult list) \<times> handle" where
  "findSimilarSessions eng h content lim =
     (case h of
        None \<Rightarrow> (Inl NotInitialized, h)
      | Some d \<Rightarrow>
          (let keyTerms = extractKeyTermsFromContent content in
           if length keyTerms = 0 then (Inr [], h)
           else (run_select eng d (similar_statement keyTerms lim (checkFTSTableExists h)), h)))"

text \<open>A text in which \<^verbatim>\<open>constructor\<close> occurs once and eight other words three times each.\<close>

definition constructor_text :: string where
  "constructor_text =
     ''The constructor: alpha alpha alpha, beta beta beta, gamma gamma gamma, '' @
     ''delta delta delta, epsilon epsilon epsilon, zeta zeta zeta, theta theta theta, '' @
     ''kappa kappa kappa.''"

section \<open>The content processor: \<^verbatim>\<open>extractKeyTopics\<close>\<close>

subsection \<open>The vocabulary\<close>

text \<open>
  The keywords are strings of regular-expression source: \<^verbatim>\<open>'c\\+\\+'\<close> in the TypeScript
  text is the five characters \<^verbatim>\<open>c\+\+\<close>. No other keyword has a character that is special in
  a regular expression.
\<close>

definition techKeywords :: "string list" where
  "techKeywords =
     [''javascript'', ''typescript'', ''python'', ''java'',
      [CHR ''c'', CHR 0x5C, CHR ''+'', CHR 0x5C, CHR ''+''], ''c#'', ''go'', ''rust'', ''php'',
      ''react'', ''vue'', ''angular'', ''node'', ''express'', ''django'', ''flask'', ''spring'',
      ''sql'', ''mongodb'', ''postgresql'', ''mysql'', ''redis'', ''docker'', ''kubernetes'',
      ''aws'', ''azure'', ''gcp'', ''git'', ''github'', ''api'', ''rest'', ''graphql'',
      ''html'', ''css'', ''json'', ''xml'', ''yaml'', ''cli'', ''bash'', ''shell'']"

definition conceptKeywords :: "string list" where
  "conceptKeywords =
     [''authentication'', ''authorization'', ''database'', ''deployment'', ''testing'',
      ''debugging'', ''optimization'', ''performance'', ''security'', ''error handling'',
      ''logging'', ''monitoring'', ''caching'', ''validation'', ''migration'',
      ''refactoring'', ''configuration'', ''environment'', ''build'', ''ci/cd'']"

subsection \<open>The three regular expressions\<close>

text \<open>The characters a keyword's expression matches: a backslash makes the next one literal.\<close>

fun literal_of :: "string \<Rightarrow> string" where
  "literal_of [] = []"
| "literal_of [c] = [c]"
| "literal_of (c # c' # cs) =
     (if c = CHR 0x5C then c' # literal_of cs else c # literal_of (c' # cs))"

text \<open>\<^verbatim>\<open>\b\<close> between two neighbours (\<open>None\<close> at an end of the text).\<close>

definition word_boundary :: "char option \<Rightarrow> char option \<Rightarrow> bool" where
  "word_boundary a b \<longleftrightarrow>
     (case a of None \<Rightarrow> False | Some c \<Rightarrow> is_word_char c) \<noteq>
     (case b of None \<Rightarrow> False | Some c \<Rightarrow> is_word_char c)"

definition first_char :: "string \<Rightarrow> char option" where
  "first_char s = (case s of [] \<Rightarrow> None | c # cs \<Rightarrow> Some c)"

text \<open>
  \<^verbatim>\<open>\bkeyword\b\<close> with flag \<^verbatim>\<open>i\<close>, at the start of \<open>s\<close>, the character before being \<open>prev\<close>.
\<close>

definition keyword_here :: "string \<Rightarrow> char option \<Rightarrow> string \<Rightarrow> bool" where
  "keyword_here lit prev s \<longleftrightarrow>
     map ascii_lower (take (length lit) s) = map ascii_lower lit \<and>
     word_boundary prev (first_char s) \<and>
     word_boundary (if lit = [] then prev else Some (last (take (length lit) s)))
       (first_char (drop (length lit) s))"

text \<open>\<^verbatim>\<open>regex.test(content)\<close>: a match somewhere.\<close>

fun keyword_test :: "string \<Rightarrow> char option \<Rightarrow> string \<Rightarrow> bool" where
  "keyword_test lit prev [] = keyword_here lit prev []"
| "keyword_test lit prev (c # cs) =
     (keyword_here lit prev (c # cs) \<or> keyword_test lit (Some c) cs)"

text \<open>
  \<^verbatim>\<open>content.match(/"([^"]{3,30})"/g)\<close>: the matches from left to right, each search starting
  after the previous match. At a quote, the expression matches when the next quote comes
  after 3 to 30 other characters.
\<close>

function quotedTerms :: "string \<Rightarrow> string list" where
  "quotedTerms [] = []"
| "quotedTerms (c # cs) =
     (if c = CHR 0x22 \<and> dropWhile (\<lambda>x. x \<noteq> CHR 0x22) cs \<noteq> [] \<and>
         3 \<le> length (takeWhile (\<lambda>x. x \<noteq> CHR 0x22) cs) \<and>
         length (takeWhile (\<lambda>x. x \<noteq> CHR 0x22) cs) \<le> 30
      then (CHR 0x22 # takeWhile (\<lambda>x. x \<noteq> CHR 0x22) cs @ [CHR 0x22])
             # quotedTerms (tl (dropWhile (\<lambda>x. x \<noteq> CHR 0x22) cs))
      else quotedTerms cs)"
  by pat_completeness auto
termination
  by (relation "measure length")
     (auto simp: length_dropWhile_le le_imp_less_Suc less_Suc_eq_le
        intro: le_trans [OF diff_le_self])

text \<open>
  \<^verbatim>\<open>content.match(/\.\w{2,4}\b/g)\<close>: at a dot, the expression matches when the word characters
  that follow are 2 to 4.
\<close>

function fileExtensions :: "string \<Rightarrow> string list" where
  "fileExtensions [] = []"
| "fileExtensions (c # cs) =
     (if c = CHR ''.'' \<and> 2 \<le> length (takeWhile is_word_char cs) \<and>
         length (takeWhile is_word_char cs) \<le> 4
      then (CHR ''.'' # takeWhile is_word_char cs) # fileExtensions (dropWhile is_word_char cs)
      else fileExtensions cs)"
  by pat_completeness auto
termination
  by (relation "measure length") (auto simp: length_dropWhile_le le_imp_less_Suc)

subsection \<open>\<^verbatim>\<open>extractKeyTopics\<close>\<close>

text \<open>\<^verbatim>\<open>topics.add(x)\<close> on a \<^verbatim>\<open>Set\<close>, which keeps the order of insertion.\<close>

definition Set_add :: "'a \<Rightarrow> 'a list \<Rightarrow> 'a list" where
  "Set_add x topics = (if x \<in> set topics then topics else topics @ [x])"

definition add_keyword :: "string \<Rightarrow> string \<Rightarrow> string list \<Rightarrow> string list" where
  "add_keyword content keyword topics =
     (if keyword_test (literal_of keyword) None content
      then Set_add (toLowerCase keyword) topics else topics)"

text \<open>\<^verbatim>\<open>term.replace(/"/g, '').toLowerCase()\<close>, kept when its length is above 2 and below 30.\<close>

definition add_quoted :: "string \<Rightarrow> string list \<Rightarrow> string list" where
  "add_quoted term topics =
     (let cleanTerm = toLowerCase (filter (\<lambda>c. c \<noteq> CHR 0x22) term)
      in if length cleanTerm > 2 \<and> length cleanTerm < 30 then Set_add cleanTerm topics
         else topics)"

definition extractKeyTopics :: "string \<Rightarrow> string list" where
  "extractKeyTopics content =
     take 20
       (fold (\<lambda>ext. Set_add (toLowerCase ext)) (fileExtensions content)
          (fold add_quoted (quotedTerms content)
             (fold (add_keyword content) (techKeywords @ conceptKeywords) [])))"

text \<open>Two texts: 30 and 29 letters between quotes.\<close>

definition quoted_30 :: string where
  "quoted_30 = CHR 0x22 # ''incremental reindexing of tags'' @ [CHR 0x22]"

definition quoted_29 :: string where
  "quoted_29 = CHR 0x22 # ''incremental reindexing of tag'' @ [CHR 0x22]"

section \<open>Properties of the store\<close>

subsection \<open>The triggers leave the rows alone; what an update does to the rows\<close>



lemma chat_sessions_au_rows [simp]: "chat_sessions (chat_sessions_au new d) = chat_sessions d"
  by (simp add: chat_sessions_au_def split: option.splits)

lemma chat_sessions_ad_rows [simp]: "chat_sessions (chat_sessions_ad old d) = chat_sessions d"
  by (simp add: chat_sessions_ad_def split: option.splits)

lemma chat_sessions_ai_rows [simp]: "chat_sessions (chat_sessions_ai new d) = chat_sessions d"
  by (simp add: chat_sessions_ai_def split: option.splits)



















subsection \<open>Claim C10: what \<^verbatim>\<open>updateSession\<close> never touches\<close>





subsection \<open>Claim C2: \<^verbatim>\<open>createSession\<close> followed by \<^verbatim>\<open>getSession\<close>\<close>








subsection \<open>Claim C4: the effect of \<^verbatim>\<open>updateSession\<close>\<close>





section \<open>Properties of the search engine\<close>

subsection \<open>The \<^verbatim>\<open>LIKE\<close> operator finds every segment\<close>









subsection \<open>Claim C5: the number of results\<close>

lemma given_number_truthy: "given_number v \<noteq> None \<longleftrightarrow> truthy_number v"
  by (simp add: given_number_def truthy_number_def split: option.splits)

lemma given_truthy: "given v \<noteq> None \<longleftrightarrow> truthy v"
  by (simp add: given_def truthy_def split: option.splits)

lemma limit_offset_length: "0 \<le> n \<Longrightarrow> length (limit_offset (Some n) off xs) \<le> nat n"
  by (simp add: limit_offset_def Let_def)

lemma run_select_limit:
  "run_select eng d st = Inr rs \<Longrightarrow> limit_clause st = Some n \<Longrightarrow> 0 \<le> n \<Longrightarrow> length rs \<le> nat n"
  by (auto simp: run_select_def limit_offset_length split: option.splits sum.splits)

lemma search_statement_limit [simp]:
  "limit_clause (search_statement f b) = given_number (limit f)"
  by (simp add: search_statement_def split: prod.splits)

lemma search_statement_offset [simp]:
  "offset_clause (search_statement f b) = given_number (offset f)"
  by (simp add: search_statement_def split: prod.splits)

lemma searchSessions_Some:
  "searchSessions eng (Some d) f =
     (run_select eng d (search_statement f (chat_sessions_fts d \<noteq> None)), Some d)"
  by (simp add: searchSessions_def checkFTSTableExists_def)

lemma search_statement_no_filters:
  "\<not> truthy_number l \<Longrightarrow>
   search_statement (no_filters\<lparr>limit := l\<rparr>) b =
     \<lparr>from_clause = From_chat_sessions, where_clause = [], order_by = By_created_at_desc,
      limit_clause = None, offset_clause = None\<rparr>"
  using given_number_truthy[of l]
  by (simp add: search_statement_def search_base_def search_conditions_def no_filters_def
      given_def given_number_def)

lemma run_select_all_rows:
  "run_select eng d \<lparr>from_clause = From_chat_sessions, where_clause = [],
      order_by = By_created_at_desc, limit_clause = None, offset_clause = None\<rparr> =
   Inr (rev (sort_key (created_at \<circ> row)
          (map (\<lambda>s. \<lparr>row = s, rank = None, matched_content = None\<rparr>) (map snd (chat_sessions d)))))"
  by (simp add: run_select_def prepare_error_def select_rows_def order_rows_def limit_offset_def)

lemma searchSessions_no_filters:
  "\<not> truthy_number l \<Longrightarrow>
   \<exists>rs. searchSessions eng (Some d) (no_filters\<lparr>limit := l\<rparr>) = (Inr rs, Some d) \<and>
        length rs = length (chat_sessions d)"
  by (simp add: searchSessions_Some search_statement_no_filters run_select_all_rows)

text \<open>
  Claim C5 says that \<^verbatim>\<open>searchSessions\<close> never returns more than a hard server maximum. The
  method has no maximum: the only bound in the repository is the rule of
  \<^verbatim>\<open>validateSearchParams\<close> that a \<^verbatim>\<open>limit\<close> in the request is between 1 and 100. With \<^verbatim>\<open>limit\<close>
  absent, the statement has no \<^verbatim>\<open>LIMIT\<close> clause, and a store of 101 sessions gives 101
  results.
\<close>

theorem searchSessions_exceeds_hard_maximum:
  "(case fst (searchSessions exact_engine (Some (many_sessions 101)) no_filters) of
      Inl e \<Rightarrow> 0 | Inr rs \<Rightarrow> length rs) = 101 \<and> hard_maximum = 100"
proof -
  have "\<not> truthy_number None" by (simp add: truthy_number_def)
  from searchSessions_no_filters[OF this, of exact_engine "many_sessions 101"]
  obtain rs where "searchSessions exact_engine (Some (many_sessions 101)) (no_filters\<lparr>limit := None\<rparr>)
      = (Inr rs, Some (many_sessions 101))" "length rs = length (chat_sessions (many_sessions 101))"
    by blast
  moreover have "no_filters\<lparr>limit := None\<rparr> = no_filters" by (simp add: no_filters_def)
  moreover have "length (chat_sessions (many_sessions 101)) = 101" by (simp add: many_sessions_def)
  ultimately show ?thesis by (simp add: hard_maximum_def)
qed

text \<open>
  Claim C5 as amended. Whenever \<^verbatim>\<open>searchSessions\<close> returns and \<^verbatim>\<open>filters.limit\<close> is a positive
  integer, there are at most \<^verbatim>\<open>filters.limit\<close> results. When \<^verbatim>\<open>filters.limit\<close> is absent or
  zero nothing bounds the results: with no other filter, every stored session is returned.
\<close>

theorem searchSessions_limit:
  "(\<forall>rs n. fst (searchSessions eng h f) = Inr rs \<and> limit f = Some n \<and> 0 < n \<longrightarrow>
            length rs \<le> nat n) \<and>
   (\<not> truthy_number l \<longrightarrow>
      (\<exists>rs. searchSessions eng (Some d) (no_filters\<lparr>limit := l\<rparr>) = (Inr rs, Some d) \<and>
            length rs = length (chat_sessions d)))"
proof -
  have "length rs \<le> nat n"
    if "fst (searchSessions eng h f) = Inr rs" "limit f = Some n" "0 < n" for rs n
  proof (cases h)
    case None
    with that show ?thesis by (simp add: searchSessions_def)
  next
    case (Some d')
    with that have "run_select eng d' (search_statement f (chat_sessions_fts d' \<noteq> None)) = Inr rs"
      by (simp add: searchSessions_Some)
    moreover have "limit_clause (search_statement f (chat_sessions_fts d' \<noteq> None)) = Some n"
      using that by (simp add: given_number_def)
    ultimately show ?thesis
      using that(3) by (intro run_select_limit) auto
  qed
  then show ?thesis
    using searchSessions_no_filters by blast
qed

theorem searchSessions_limit_witness:
  "fst (searchSessions exact_engine (Some (many_sessions 3)) (no_filters\<lparr>limit := Some 2\<rparr>)) =
     Inr (limit_offset (Some 2) None
            (rev (sort_key (created_at \<circ> row)
               (map (\<lambda>s. \<lparr>row = s, rank = None, matched_content = None\<rparr>)
                  (map snd (chat_sessions (many_sessions 3))))))) \<and>
   limit (no_filters\<lparr>limit := Some 2\<rparr>) = Some 2 \<and> (0::int) < 2 \<and>
   length (limit_offset (Some 2) None
            (rev (sort_key (created_at \<circ> row)
               (map (\<lambda>s. \<lparr>row = s, rank = None, matched_content = None\<rparr>)
                  (map snd (chat_sessions (many_sessions 3))))))) \<le> nat 2 \<and>
   \<not> truthy_number (Some 0) \<and>
   (\<exists>rs. searchSessions exact_engine (Some (many_sessions 3)) (no_filters\<lparr>limit := Some 0\<rparr>) =
           (Inr rs, Some (many_sessions 3)) \<and>
         length rs = length (chat_sessions (many_sessions 3)))"
proof -
  let ?rs = "limit_offset (Some 2) None
            (rev (sort_key (created_at \<circ> row)
               (map (\<lambda>s. \<lparr>row = s, rank = None, matched_content = None\<rparr>)
                  (map snd (chat_sessions (many_sessions 3))))))"
  let ?f = "no_filters\<lparr>limit := Some 2\<rparr>"
  have r: "fst (searchSessions exact_engine (Some (many_sessions 3)) ?f) = Inr ?rs"
    by (simp add: searchSessions_Some search_statement_def search_base_def
        search_conditions_def no_filters_def given_def given_number_def run_select_def
        prepare_error_def select_rows_def order_rows_def many_sessions_def)
  have l: "limit ?f = Some 2 \<and> (0::int) < 2"
    by simp
  have z: "\<not> truthy_number (Some 0)"
    by (simp add: truthy_number_def)
  show ?thesis
    using searchSessions_limit
      [of exact_engine "Some (many_sessions 3)" ?f "Some 0" "many_sessions 3"] r l z
    by blast
qed

subsection \<open>Claim C9: \<^verbatim>\<open>OFFSET\<close> without \<^verbatim>\<open>LIMIT\<close>\<close>

text \<open>
  Claim C9. When \<^verbatim>\<open>filters.offset\<close> is truthy (not zero; a positive offset in particular) and
  \<^verbatim>\<open>filters.limit\<close> is absent or zero, the statement text ends in \<^verbatim>\<open>OFFSET ?\<close> with no
  \<^verbatim>\<open>LIMIT\<close> before it, \<^verbatim>\<open>prepare\<close> throws a syntax error, whatever the other filters and the
  store are, and the store is what it was.
\<close>

theorem searchSessions_offset_without_limit:
  "truthy_number (offset f) \<Longrightarrow> \<not> truthy_number (limit f) \<Longrightarrow>
   searchSessions eng (Some d) f = (Inl SqliteSyntaxError, Some d)"
  using given_number_truthy[of "offset f"] given_number_truthy[of "limit f"]
  by (auto simp: searchSessions_Some run_select_def prepare_error_def)


theorem searchSessions_offset_without_limit_witness:
  "truthy_number (offset (no_filters\<lparr>offset := Some 10\<rparr>)) \<and>
   \<not> truthy_number (limit (no_filters\<lparr>offset := Some 10\<rparr>)) \<and>
   searchSessions exact_engine (Some (example_database True)) (no_filters\<lparr>offset := Some 10\<rparr>) =
     (Inl SqliteSyntaxError, Some (example_database True))"
proof -
  have h1: "truthy_number (offset (no_filters\<lparr>offset := Some 10\<rparr>))"
    by (simp add: truthy_number_def)
  have h2: "\<not> truthy_number (limit (no_filters\<lparr>offset := Some 10\<rparr>))"
    by (simp add: truthy_number_def no_filters_def)
  show ?thesis
    using searchSessions_offset_without_limit [OF h1 h2] h1 h2 by blast
qed

subsection \<open>Claim C3: the fallback path\<close>







section \<open>The index and the table\<close>

subsection \<open>Claim C1: the index after an update and after a delete\<close>

text \<open>
  Claim C1 says that after every create, update and delete the index has exactly one entry
  per existing session, with its current values, and none for a deleted session, so that a
  search for a title finds a session exactly when the session exists with that title. The
  triggers are written for an ordinary table, and \<^verbatim>\<open>chat_sessions_fts\<close> is an external-content
  table. The evaluation below runs the store from a new database.
  \<^item> After the session "Index design" is retitled "Ranking", the index holds the old title
    and the new one under rowid 1 (the update trigger removed the tokens of the values the
    content table has now, the new ones, and filed the new ones), and a search for the old
    title returns the session, whose title is "Ranking".
  \<^item> After the session is deleted, the table is empty and the index still has its entry
    (the delete trigger looks for a row with the deleted id through the content table,
    where it is gone, and removes nothing).
  \<^item> When a second session "Ranking" is then created, the table reuses rowid 1 and the
    index files it under rowid 2: a search for the deleted session's title returns the new
    session, and a search for the new session's own title fails.
\<close>

theorem index_out_of_step:
  "map_option chat_sessions_fts retitled =
     Some (Some [(1, ''Index design'', original_content example_session, tags example_session),
                 (1, ''Ranking'', original_content example_session, tags example_session)]) \<and>
   map_option (map (title \<circ> snd) \<circ> chat_sessions) retitled = Some [''Ranking''] \<and>
   map_sum id (map (title \<circ> row))
     (fst (searchSessions exact_engine retitled (no_filters\<lparr>query := Some ''Index design''\<rparr>))) =
     Inr [''Ranking''] \<and>
   map_option chat_sessions deleted = Some [] \<and>
   map_option chat_sessions_fts deleted =
     Some (Some [(1, ''Index design'', original_content example_session, tags example_session)]) \<and>
   map_sum id (map (title \<circ> row))
     (fst (searchSessions exact_engine created_again (no_filters\<lparr>query := Some ''Index design''\<rparr>))) =
     Inr [''Ranking''] \<and>
   fst (searchSessions exact_engine created_again (no_filters\<lparr>query := Some ''Ranking''\<rparr>)) =
     Inl SqliteCorruptVtab"
  by code_simp

section \<open>Properties of the similarity matcher and of the content processor\<close>

subsection \<open>Claim C7: the key terms of \<^verbatim>\<open>findSimilarSessions\<close>\<close>

text \<open>
  For every text: there are at most 8 key terms; each is a word of the lower-cased text
  that is longer than 3 and not a stop word; without such a word the method returns the
  empty list; on the fallback path each key term gives three \<^verbatim>\<open>LIKE\<close> conditions.
\<close>

lemma extractKeyTerms_length: "length (extractKeyTermsFromContent content) \<le> 8"
  by (simp add: extractKeyTermsFromContent_def Let_def)

lemma set_insert_sorted [simp]: "set (insert_sorted cmp x ys) = insert x (set ys)"
  by (induction ys) auto

lemma set_stable_sort [simp]: "set (stable_sort cmp xs) = set xs"
  by (induction xs) (simp_all add: stable_sort_def)

lemma set_entries [simp]: "set (entries wc) = set wc"
  by (auto simp: entries_def)

lemma keys_map_update:
  "map fst (map (\<lambda>(k, v). if k = w then (k, x) else (k, v)) wc) = map fst wc"
  by (induction wc) auto

lemma keys_count_word: "set (map fst (count_word w wc)) \<subseteq> insert w (set (map fst wc))"
proof -
  have "map fst (count_word w wc) = map fst wc \<or> map fst (count_word w wc) = map fst wc @ [w]"
    unfolding count_word_def using keys_map_update[of w "next_count wc w" wc]
    by (simp del: map_map)
  then show ?thesis
  proof
    assume e: "map fst (count_word w wc) = map fst wc"
    show ?thesis unfolding e by blast
  next
    assume e: "map fst (count_word w wc) = map fst wc @ [w]"
    show ?thesis unfolding e by simp
  qed
qed

lemma keys_fold_count_word:
  "set (map fst (fold count_word ws wc)) \<subseteq> set ws \<union> set (map fst wc)"
proof (induction ws arbitrary: wc)
  case Nil
  then show ?case by simp
next
  case (Cons w ws)
  have "set (map fst (fold count_word ws (count_word w wc))) \<subseteq>
        set ws \<union> set (map fst (count_word w wc))"
    by (rule Cons.IH)
  with keys_count_word[of w wc] show ?case
    unfolding fold_simps list.set by blast
qed

lemma extractKeyTerms_are_key_words:
  "set (extractKeyTermsFromContent content) \<subseteq> set (key_words content)"
proof -
  let ?sorted = "stable_sort compare_counts (entries (fold count_word (key_words content) []))"
  have "set (extractKeyTermsFromContent content) = fst ` set (take 8 ?sorted)"
    by (simp add: extractKeyTermsFromContent_def Let_def)
  also have "\<dots> \<subseteq> fst ` set ?sorted"
    by (intro image_mono set_take_subset)
  also have "\<dots> = set (map fst (fold count_word (key_words content) []))"
    by simp
  also have "\<dots> \<subseteq> set (key_words content)"
    using keys_fold_count_word[of "key_words content" "[]"] by simp
  finally show ?thesis .
qed

lemma key_words_qualify:
  "w \<in> set (key_words content) \<Longrightarrow> length w > 3 \<and> w \<notin> set stop_words"
  by (simp add: key_words_def)

lemma findSimilarSessions_no_key_words:
  "key_words content = [] \<Longrightarrow> findSimilarSessions eng (Some d) content lim = (Inr [], Some d)"
  using extractKeyTerms_are_key_words[of content]
  by (simp add: findSimilarSessions_def Let_def)

lemma likeConditions_three_per_term:
  "length (concat (map columns_of [likeConditions keyTerms])) = 3 * length keyTerms"
  by (induction keyTerms) (simp_all add: likeConditions_def)

text \<open>
  Claim C7 says that for every text the words are ranked by their frequency and the top 8
  are taken. The counts are kept in an object literal, where the word \<^verbatim>\<open>constructor\<close> finds
  the inherited \<^verbatim>\<open>Object\<close> instead of no count: its count becomes a string, every comparison
  with it is \<^verbatim>\<open>NaN\<close>, and the sort leaves it where it is. In the text below \<^verbatim>\<open>constructor\<close>
  occurs once and eight other words three times each; the key terms are \<^verbatim>\<open>constructor\<close> and
  seven of the eight, and \<^verbatim>\<open>kappa\<close>, which occurs three times, is left out.
\<close>

theorem extractKeyTerms_constructor:
  "extractKeyTermsFromContent constructor_text =
     [''constructor'', ''alpha'', ''beta'', ''gamma'', ''delta'', ''epsilon'', ''zeta'', ''theta''] \<and>
   count_list (key_words constructor_text) ''constructor'' = 1 \<and>
   count_list (key_words constructor_text) ''kappa'' = 3"
  by code_simp


subsection \<open>Claim C8: the key topics\<close>

lemma extractKeyTopics_length: "length (extractKeyTopics content) \<le> 20"
  by (simp add: extractKeyTopics_def)

text \<open>
  Claim C8 says that the key topics contain every quoted substring of length 3 to 30. The
  regular expression takes 3 to 30 characters between the quotes, and the test that
  follows keeps a term only when its length is below 30: a quoted term of 30 characters is
  matched and then dropped, one of 29 characters is kept. (The list never has more than 20
  entries: \<open>extractKeyTopics_length\<close>.)
\<close>

theorem extractKeyTopics_quoted_30:
  "quotedTerms quoted_30 = [quoted_30] \<and>
   length (filter (\<lambda>c. c \<noteq> CHR 0x22) quoted_30) = 30 \<and>
   extractKeyTopics quoted_30 = [] \<and>
   extractKeyTopics quoted_29 = [''incremental reindexing of tag'']"
  by code_simp

end
